theory Spec2Isabelle
  imports Main "HOL-Library.Word"
begin

section \<open>Data model\<close>

text \<open>
  The TCP connection state machine of \<^verbatim>\<open>src/net/tcp_connection_states.cpp\<close>.

  Sequence numbers (\<^verbatim>\<open>TCP::Seq\<close>) are 32-bit unsigned integers: the source prints
  \<^verbatim>\<open>in->seq()\<close>, \<^verbatim>\<open>in->ack()\<close> and \<^verbatim>\<open>tcb.RCV.NXT\<close> with \<^verbatim>\<open>%u\<close>, increments them
  with \<^verbatim>\<open>++\<close> and uses one as the operand of \<^verbatim>\<open>and\<close>. They are compared with the
  built-in operators \<^verbatim>\<open><\<close>, \<^verbatim>\<open><=\<close>, \<^verbatim>\<open>>\<close>, \<^verbatim>\<open>==\<close>, which on \<open>32 word\<close> are the unsigned
  order and equality; \<open>+\<close> and \<open>-\<close> wrap around modulo \<open>2\<^sup>3\<^sup>2\<close>.
\<close>

datatype flag = SYN | ACK | FIN | RST | PSH

text \<open>
  Modelled from the spec: the packet class is declared in a header that is not among the
  sources. An incoming segment exposes \<^verbatim>\<open>seq\<close>, \<^verbatim>\<open>ack\<close>, \<^verbatim>\<open>win\<close>, \<^verbatim>\<open>data_length\<close>, \<^verbatim>\<open>has_data\<close>
  and \<^verbatim>\<open>isset(flag)\<close>. The window is the unscaled 16-bit field of the TCP header (window
  scaling is a non-goal), and the payload length of a segment fits 16 bits as well.
\<close>

record segment =
  seg_seq :: "32 word"
  seg_ack :: "32 word"
  seg_win :: "16 word"
  data_length :: "16 word"
  seg_flags :: "flag set"

definition isset :: "segment \<Rightarrow> flag \<Rightarrow> bool" where
  "isset seg f = (f \<in> seg_flags seg)"

definition has_data :: "segment \<Rightarrow> bool" where
  "has_data seg = (0 < data_length seg)"

text \<open>
  Modelled from the spec: the transmission control block (its declaration is in the
  missing header). \<^verbatim>\<open>tcb.SND.X\<close> is \<open>SND_X\<close>, \<^verbatim>\<open>tcb.RCV.X\<close> is \<open>RCV_X\<close>.
\<close>

record tcb =
  SND_UNA :: "32 word"
  SND_NXT :: "32 word"
  SND_WND :: "16 word"
  SND_WL1 :: "32 word"
  SND_WL2 :: "32 word"
  SND_cwnd :: "32 word"
  ISS :: "32 word"
  RCV_NXT :: "32 word"
  RCV_WND :: "16 word"
  IRS :: "32 word"

datatype tcp_option = MSS

text \<open>
  Modelled from the spec: the outgoing packet is a builder obtained from the connection
  and handed to \<^verbatim>\<open>transmit\<close>. A field the state machine never sets stays \<open>None\<close>: the
  builder's default for it is not in the sources.
\<close>

record packet =
  p_seq :: "32 word option"
  p_ack :: "32 word option"
  p_flags :: "flag set"
  p_options :: "tcp_option list"

definition outgoing_packet :: packet where
  "outgoing_packet = \<lparr>p_seq = None, p_ack = None, p_flags = {}, p_options = []\<rparr>"

definition set_seq :: "32 word \<Rightarrow> packet \<Rightarrow> packet" where
  "set_seq n p = p\<lparr>p_seq := Some n\<rparr>"

definition set_ack :: "32 word \<Rightarrow> packet \<Rightarrow> packet" where
  "set_ack n p = p\<lparr>p_ack := Some n\<rparr>"

definition set_flag :: "flag \<Rightarrow> packet \<Rightarrow> packet" where
  "set_flag f p = p\<lparr>p_flags := insert f (p_flags p)\<rparr>"

definition set_flags :: "flag set \<Rightarrow> packet \<Rightarrow> packet" where
  "set_flags fs p = p\<lparr>p_flags := fs \<union> p_flags p\<rparr>"

definition add_option :: "tcp_option \<Rightarrow> packet \<Rightarrow> packet" where
  "add_option opt p = p\<lparr>p_options := p_options p @ [opt]\<rparr>"

datatype disconnect = CLOSING | RESET | REFUSED

datatype result = OK | CLOSED | CLOSE

datatype state =
  Closed | Listen | SynSent | SynReceived | Established | FinWait1 | FinWait2
  | CloseWait | Closing | LastAck | TimeWait

text \<open>
  The state machine talks to its collaborators (lower layer, owner, timers, queues) by
  calls on the connection. The calls whose only visible effect is outside the state
  machine are recorded, in order, in a trace.
\<close>

datatype call =
  Transmit packet
  | Drop segment string
  | Signal_accept
  | Signal_connect
  | Signal_disconnect disconnect
  | Signal_error string
  | Receive_disconnect
  | Acknowledge "32 word"
  | Reno_dup_ack "32 word"
  | Rt_ack_queue "32 word"
  | Rt_stop
  | Rttm_stop "bool option"
  | Start_time_wait_timeout

record conn =
  tcb :: tcb
  state :: state
  prev_state :: state
  remote_is_empty :: bool
  rttm_active :: bool
  read_capacity :: nat
  read_size :: nat
  trace :: "call list"

text \<open>
  What the sources do not fix is a parameter: the owner's answer to \<^verbatim>\<open>signal_accept\<close>, what
  the user's connect callback does to the connection (it may issue sends, which is why
  \<^verbatim>\<open>SynSent::handle\<close> snapshots \<^verbatim>\<open>SND.NXT\<close> around it), what \<^verbatim>\<open>Connection::receive\<close> does
  and how many bytes it reports as received, what the write queue does, the duplicate-ACK
  classifier, and the values \<^verbatim>\<open>tcb.init()\<close> picks.
\<close>

record env =
  signal_accept :: "conn \<Rightarrow> bool"
  on_connect :: "conn \<Rightarrow> conn"
  receive :: "segment \<Rightarrow> conn \<Rightarrow> nat \<times> conn"
  has_doable_job :: "conn \<Rightarrow> bool"
  is_queued :: "conn \<Rightarrow> bool"
  write_queue_push :: "conn \<Rightarrow> conn"
  reno_is_dup_ack :: "conn \<Rightarrow> segment \<Rightarrow> bool"
  fresh_iss :: "32 word"
  configured_window :: "16 word"

section \<open>Connection hooks\<close>

definition called :: "call \<Rightarrow> conn \<Rightarrow> conn" where
  "called x c = c\<lparr>trace := trace c @ [x]\<rparr>"

definition transmit :: "packet \<Rightarrow> conn \<Rightarrow> conn" where
  "transmit p c = called (Transmit p) c"

definition drop_segment :: "segment \<Rightarrow> string \<Rightarrow> conn \<Rightarrow> conn" where
  "drop_segment seg reason c = called (Drop seg reason) c"

definition signal_disconnect :: "disconnect \<Rightarrow> conn \<Rightarrow> conn" where
  "signal_disconnect cause c = called (Signal_disconnect cause) c"

definition signal_connect :: "env \<Rightarrow> conn \<Rightarrow> conn" where
  "signal_connect e c = on_connect e (called Signal_connect c)"

text \<open>Modelled from the spec: \<^verbatim>\<open>set_state\<close> records the state and the previous state.\<close>

definition set_state :: "state \<Rightarrow> conn \<Rightarrow> conn" where
  "set_state s c = c\<lparr>prev_state := state c, state := s\<rparr>"

text \<open>
  Modelled from the spec: \<^verbatim>\<open>acknowledge\<close> advances \<^verbatim>\<open>SND.UNA\<close>, frees retransmission-queue
  entries and notifies the round-trip measurement.
\<close>

definition acknowledge :: "32 word \<Rightarrow> conn \<Rightarrow> conn" where
  "acknowledge n c = called (Acknowledge n) (c\<lparr>tcb := (tcb c)\<lparr>SND_UNA := n\<rparr>\<rparr>)"

text \<open>Modelled from the spec: a stopped round-trip measurement is no longer active.\<close>

definition rttm_stop :: "bool option \<Rightarrow> conn \<Rightarrow> conn" where
  "rttm_stop arg c = called (Rttm_stop arg) (c\<lparr>rttm_active := False\<rparr>)"

text \<open>
  Modelled from the spec: \<^verbatim>\<open>init()\<close> chooses a fresh \<^verbatim>\<open>ISS\<close>, sets
  \<^verbatim>\<open>SND.UNA = SND.NXT = ISS\<close> and seeds \<^verbatim>\<open>RCV.WND\<close> from the configuration.
\<close>

definition init :: "env \<Rightarrow> tcb \<Rightarrow> tcb" where
  "init e t = t\<lparr>ISS := fresh_iss e, SND_UNA := fresh_iss e, SND_NXT := fresh_iss e,
                RCV_WND := configured_window e\<rparr>"

section \<open>Common state functions\<close>

subsection \<open>1. Check sequence number\<close>

text \<open>
  The value of the local \<^verbatim>\<open>acceptable\<close> after the chain of four branches. In
  \<^verbatim>\<open>tcb.RCV.NXT + tcb.RCV.WND\<close> and \<^verbatim>\<open>in->seq() + in->data_length() - 1\<close> the 16-bit operand
  is converted to the 32-bit unsigned type of the sum.
\<close>

definition check_seq_acceptable :: "tcb \<Rightarrow> segment \<Rightarrow> bool" where
  "check_seq_acceptable t seg =
    (if seg_seq seg = RCV_NXT t then True
     else if RCV_NXT t \<le> seg_seq seg \<and> seg_seq seg < RCV_NXT t + ucast (RCV_WND t) then True
     else if seg_seq seg + ucast (data_length seg) - 1 > RCV_NXT t + ucast (RCV_WND t) then False
     else if (RCV_NXT t \<le> seg_seq seg \<and> seg_seq seg < RCV_NXT t + ucast (RCV_WND t))
           \<or> (RCV_NXT t \<le> seg_seq seg + ucast (data_length seg) - 1
              \<and> seg_seq seg + ucast (data_length seg) - 1 < RCV_NXT t + ucast (RCV_WND t))
     then True
     else False)"

text \<open>
  The reason handed to \<^verbatim>\<open>drop\<close> is telemetry; the source appends the segment's and the
  block's numbers to the text kept here.
\<close>

definition check_seq :: "conn \<Rightarrow> segment \<Rightarrow> bool \<times> conn" where
  "check_seq c seg =
    (if \<not> check_seq_acceptable (tcb c) seg then
       (let c1 = (if \<not> isset seg RST
                  then transmit (set_flag ACK (set_ack (RCV_NXT (tcb c))
                                   (set_seq (SND_NXT (tcb c)) outgoing_packet))) c
                  else c)
        in (False, drop_segment seg ''Unacceptable SEQ'' c1))
     else (True, c))"

text \<open>
  The acceptability test of RFC 793 as the specification words it, over the segment
  length and the receive window, in modular sequence arithmetic: \<open>x\<close> lies in the window
  when its distance from \<^verbatim>\<open>RCV.NXT\<close> is below \<^verbatim>\<open>RCV.WND\<close>.
\<close>

definition in_window :: "tcb \<Rightarrow> 32 word \<Rightarrow> bool" where
  "in_window t x = (x - RCV_NXT t < ucast (RCV_WND t))"

definition rfc793_acceptable :: "tcb \<Rightarrow> segment \<Rightarrow> bool" where
  "rfc793_acceptable t seg =
    (if data_length seg = 0 then
       (if RCV_WND t = 0 then seg_seq seg = RCV_NXT t else in_window t (seg_seq seg))
     else
       (if RCV_WND t = 0 then False
        else in_window t (seg_seq seg)
           \<or> in_window t (seg_seq seg + ucast (data_length seg) - 1)))"

subsection \<open>4. Check SYN\<close>

text \<open>Every caller checks the SYN flag first, which is what the function asserts.\<close>

definition unallowed_syn_reset_connection :: "conn \<Rightarrow> segment \<Rightarrow> conn" where
  "unallowed_syn_reset_connection c seg =
    signal_disconnect RESET
      (transmit (set_flag RST (set_seq (seg_ack seg) outgoing_packet)) c)"

subsection \<open>5. Check ACK\<close>

text \<open>
  The guard of the window update is written
  \<^verbatim>\<open>tcb.SND.WL1 < in->seq() or ( tcb.SND.WL1 = in->seq() and tcb.SND.WL2 <= in->ack() )\<close>
  with the assignment operator \<^verbatim>\<open>=\<close>. Assignment binds weaker than \<^verbatim>\<open>and\<close>, so when the
  left operand of \<^verbatim>\<open>or\<close> is false the parenthesis stores the truth value of
  \<^verbatim>\<open>in->seq() and tcb.SND.WL2 <= in->ack()\<close> (1 or 0, \<^verbatim>\<open>in->seq()\<close> counting as true when
  it is not zero) in \<^verbatim>\<open>SND.WL1\<close>, and the stored value decides the guard.
\<close>

definition window_update :: "tcb \<Rightarrow> segment \<Rightarrow> tcb" where
  "window_update t seg =
    (if SND_WL1 t < seg_seq seg then
       t\<lparr>SND_WND := seg_win seg, SND_WL1 := seg_seq seg, SND_WL2 := seg_ack seg\<rparr>
     else
       (let t1 = t\<lparr>SND_WL1 := (if seg_seq seg \<noteq> 0 \<and> SND_WL2 t \<le> seg_ack seg then 1 else 0)\<rparr>
        in if SND_WL1 t1 \<noteq> 0 then
             t1\<lparr>SND_WND := seg_win seg, SND_WL1 := seg_seq seg, SND_WL2 := seg_ack seg\<rparr>
           else t1))"

definition check_ack :: "env \<Rightarrow> conn \<Rightarrow> segment \<Rightarrow> bool \<times> conn" where
  "check_ack e c seg =
    (if isset seg ACK then
       (if seg_ack seg \<le> SND_NXT (tcb c) then
          (if SND_UNA (tcb c) \<le> seg_ack seg then
             (let c1 = c\<lparr>tcb := window_update (tcb c) seg\<rparr>
              in if SND_UNA (tcb c1) < seg_ack seg then (True, acknowledge (seg_ack seg) c1)
                 else if reno_is_dup_ack e c1 seg then (True, called (Reno_dup_ack (seg_ack seg)) c1)
                 else (True, c1))
           else (True, c))
        else
          (False, drop_segment seg ''ACK > SND.NXT'' (transmit (set_flag ACK outgoing_packet) c)))
     else (False, drop_segment seg ''!ACK'' c))"

text \<open>
  The guard as the specification words it (RFC 793 and the comment above the code):
  \<^verbatim>\<open>SND.WL1 < SEG.SEQ or (SND.WL1 = SEG.SEQ and SND.WL2 =< SEG.ACK)\<close>.
\<close>

definition window_update_guard :: "tcb \<Rightarrow> segment \<Rightarrow> bool" where
  "window_update_guard t seg =
    (SND_WL1 t < seg_seq seg \<or> (SND_WL1 t = seg_seq seg \<and> SND_WL2 t \<le> seg_ack seg))"

subsection \<open>7. Process the segment text\<close>

text \<open>
  The function asserts twice: \<^verbatim>\<open>assert(in->has_data())\<close> on entry, and
  \<^verbatim>\<open>assert(received == length)\<close> on the count that \<^verbatim>\<open>Connection::receive\<close> returns, when
  the read buffer has a capacity and the bytes are handed over. A failed assertion stops
  the program: the result is \<open>None\<close>, and so is the result of every \<^verbatim>\<open>handle\<close> that
  called the function.
\<close>

definition process_segment :: "env \<Rightarrow> conn \<Rightarrow> segment \<Rightarrow> conn option" where
  "process_segment e c seg =
    (if \<not> has_data seg then None
     else
       (let (received_all, c1) =
              (if read_capacity c \<noteq> 0
               then (fst (receive e seg c) = unat (data_length seg), snd (receive e seg c))
               else (True, c))
        in if \<not> received_all then None
           else
             (let c2 = c1\<lparr>tcb := (tcb c1)\<lparr>RCV_NXT := RCV_NXT (tcb c1)
                                                   + ucast (data_length seg)\<rparr>\<rparr>;
                  c3 = transmit (set_flag ACK (set_ack (RCV_NXT (tcb c2))
                                   (set_seq (SND_NXT (tcb c2)) outgoing_packet))) c2
              in Some (if has_doable_job e c3 \<and> \<not> is_queued e c3
                       then write_queue_push e c3 else c3))))"

subsection \<open>8. Process FIN\<close>

text \<open>
  Every caller checks the FIN flag first, which is what the function asserts. The
  acknowledgment is built without \<^verbatim>\<open>set_seq\<close>.
\<close>

definition process_fin :: "conn \<Rightarrow> segment \<Rightarrow> conn" where
  "process_fin c seg =
    (let c1 = signal_disconnect CLOSING c;
         c2 = c1\<lparr>tcb := (tcb c1)\<lparr>RCV_NXT := RCV_NXT (tcb c1) + 1\<rparr>\<rparr>;
         c3 = transmit (set_flag ACK (set_ack (RCV_NXT (tcb c2)) outgoing_packet)) c2
     in if read_size c3 \<noteq> 0 then called Receive_disconnect c3 else c3)"

section \<open>OPEN\<close>

text \<open>A thrown \<^verbatim>\<open>TCPException\<close> is the left summand, with its message.\<close>

definition State_open :: "env \<Rightarrow> conn \<Rightarrow> bool \<Rightarrow> string + conn" where
  "State_open e c active = Inl ''Connection already exists.''"

definition Closed_open :: "env \<Rightarrow> conn \<Rightarrow> bool \<Rightarrow> string + conn" where
  "Closed_open e c active =
    (if active then
       (if \<not> remote_is_empty c then
          (let c1 = c\<lparr>tcb := init e (tcb c)\<rparr>;
               packet = set_flag SYN (set_seq (ISS (tcb c1)) outgoing_packet);
               packet1 = add_option MSS packet;
               c2 = c1\<lparr>tcb := (tcb c1)\<lparr>SND_UNA := ISS (tcb c1)\<rparr>\<rparr>;
               c3 = c2\<lparr>tcb := (tcb c2)\<lparr>SND_NXT := ISS (tcb c2) + 1\<rparr>\<rparr>
           in Inr (set_state SynSent (transmit packet1 c3)))
        else Inl ''No remote host set.'')
     else Inr (set_state Listen c))"

definition Listen_open :: "env \<Rightarrow> conn \<Rightarrow> bool \<Rightarrow> string + conn" where
  "Listen_open e c active =
    (if \<not> remote_is_empty c then
       (let c1 = c\<lparr>tcb := init e (tcb c)\<rparr>;
            packet = set_flag SYN (set_seq (ISS (tcb c1)) outgoing_packet);
            c2 = c1\<lparr>tcb := (tcb c1)\<lparr>SND_UNA := ISS (tcb c1)\<rparr>\<rparr>;
            c3 = c2\<lparr>tcb := (tcb c2)\<lparr>SND_NXT := ISS (tcb c2) + 1\<rparr>\<rparr>
        in Inr (set_state SynSent (transmit packet c3)))
     else Inl ''No remote host set.'')"

definition open_conn :: "env \<Rightarrow> conn \<Rightarrow> bool \<Rightarrow> string + conn" where
  "open_conn e c active =
    (case state c of
       Closed \<Rightarrow> Closed_open e c active
     | Listen \<Rightarrow> Listen_open e c active
     | _ \<Rightarrow> State_open e c active)"

section \<open>HANDLE (segment arrives)\<close>

definition Closed_handle :: "env \<Rightarrow> conn \<Rightarrow> segment \<Rightarrow> result \<times> conn" where
  "Closed_handle e c seg =
    (if isset seg RST then (OK, c)
     else
       (let packet =
          (if \<not> isset seg ACK
           then set_flags {RST, ACK}
                  (set_ack (seg_seq seg + ucast (data_length seg)) (set_seq 0 outgoing_packet))
           else set_flag RST (set_seq (seg_ack seg) outgoing_packet))
        in (OK, transmit packet c)))"

definition Listen_handle :: "env \<Rightarrow> conn \<Rightarrow> segment \<Rightarrow> result \<times> conn" where
  "Listen_handle e c seg =
    (if isset seg RST then (OK, c)
     else if isset seg ACK then
       (OK, transmit (set_flag RST (set_seq (seg_ack seg) outgoing_packet)) c)
     else if isset seg SYN then
       (let c0 = called Signal_accept c in
        if \<not> signal_accept e c then (CLOSED, c0)
        else
          (let c1 = c0\<lparr>tcb := (tcb c0)\<lparr>RCV_NXT := seg_seq seg + 1\<rparr>\<rparr>;
               c2 = c1\<lparr>tcb := (tcb c1)\<lparr>IRS := seg_seq seg\<rparr>\<rparr>;
               c3 = c2\<lparr>tcb := init e (tcb c2)\<rparr>;
               c4 = c3\<lparr>tcb := (tcb c3)\<lparr>SND_NXT := ISS (tcb c3) + 1\<rparr>\<rparr>;
               c5 = c4\<lparr>tcb := (tcb c4)\<lparr>SND_UNA := ISS (tcb c4)\<rparr>\<rparr>;
               packet = set_flags {SYN, ACK}
                          (set_ack (RCV_NXT (tcb c5)) (set_seq (ISS (tcb c5)) outgoing_packet));
               packet1 = add_option MSS packet
           in (OK, set_state SynReceived (transmit packet1 c5))))
     else (OK, c))"

text \<open>\<^verbatim>\<open>SynSent::handle\<close>, step 4: the segment carries SYN.\<close>

definition SynSent_check_syn :: "env \<Rightarrow> conn \<Rightarrow> segment \<Rightarrow> (result \<times> conn) option" where
  "SynSent_check_syn e c seg =
    (let c1 = c\<lparr>tcb := (tcb c)\<lparr>RCV_NXT := seg_seq seg + 1\<rparr>\<rparr>;
         c2 = c1\<lparr>tcb := (tcb c1)\<lparr>IRS := seg_seq seg\<rparr>\<rparr>;
         c3 = c2\<lparr>tcb := (tcb c2)\<lparr>SND_UNA := seg_ack seg\<rparr>\<rparr>;
         c4 = called (Rt_ack_queue (seg_ack seg)) c3
     in if SND_UNA (tcb c4) > ISS (tcb c4) then
          (let c5 = set_state Established c4;
               c6 = c5\<lparr>tcb := (tcb c5)\<lparr>SND_WND := seg_win seg, SND_WL1 := seg_seq seg,
                                       SND_WL2 := seg_ack seg\<rparr>\<rparr>;
               snd_nxt = SND_NXT (tcb c6);
               c7 = signal_connect e c6;
               c8 = (if SND_NXT (tcb c7) = snd_nxt
                     then transmit (set_flag ACK (set_ack (RCV_NXT (tcb c7))
                                      (set_seq (SND_NXT (tcb c7)) outgoing_packet))) c7
                     else c7)
           in case (if has_data seg then process_segment e c8 seg else Some c8) of
                None \<Rightarrow> None
              | Some c9 \<Rightarrow>
                  if isset seg FIN then Some (OK, set_state CloseWait (process_fin c9 seg))
                  else Some (OK, c9))
        else
          (let packet = set_flags {SYN, ACK}
                          (set_ack (RCV_NXT (tcb c4)) (set_seq (ISS (tcb c4)) outgoing_packet));
               c5 = set_state SynReceived (transmit packet c4)
           in case (if has_data seg then process_segment e c5 seg else Some c5) of
                None \<Rightarrow> None
              | Some c6 \<Rightarrow> Some (OK, c6)))"

text \<open>\<^verbatim>\<open>SynSent::handle\<close>, steps 2 to 4, reached when the ACK check did not return.\<close>

definition SynSent_check_rst :: "env \<Rightarrow> conn \<Rightarrow> segment \<Rightarrow> (result \<times> conn) option" where
  "SynSent_check_rst e c seg =
    (if isset seg RST then
       (if isset seg ACK then
          Some (CLOSED, drop_segment seg ''RST with acceptable ACK''
                          (called (Signal_error ''Connection reset.'') c))
        else Some (OK, drop_segment seg ''RST'' c))
     else if isset seg SYN then SynSent_check_syn e c seg
     else Some (OK, drop_segment seg [] c))"

definition SynSent_handle :: "env \<Rightarrow> conn \<Rightarrow> segment \<Rightarrow> (result \<times> conn) option" where
  "SynSent_handle e c seg =
    (if isset seg ACK then
       (if seg_ack seg \<le> ISS (tcb c) \<or> seg_ack seg > SND_NXT (tcb c) then
          (if \<not> isset seg RST
           then Some (OK, transmit (set_flag RST (set_seq (seg_ack seg) outgoing_packet)) c)
           else Some (OK, drop_segment seg ''RST'' c))
        else SynSent_check_rst e (if rttm_active c then rttm_stop (Some True) c else c) seg)
     else SynSent_check_rst e c seg)"

text \<open>\<^verbatim>\<open>SynReceived::handle\<close>, step 8 at the end of the function.\<close>

definition SynReceived_check_fin :: "conn \<Rightarrow> segment \<Rightarrow> result \<times> conn" where
  "SynReceived_check_fin c seg =
    (if isset seg FIN then (OK, set_state CloseWait (process_fin c seg)) else (OK, c))"

definition SynReceived_handle :: "env \<Rightarrow> conn \<Rightarrow> segment \<Rightarrow> (result \<times> conn) option" where
  "SynReceived_handle e c seg =
    (let (ok, c1) = check_seq c seg in
     if \<not> ok then Some (OK, c1)
     else if isset seg RST then
       Some (CLOSED, if prev_state c1 = SynSent then signal_disconnect REFUSED c1 else c1)
     else if isset seg SYN then Some (CLOSED, unallowed_syn_reset_connection c1 seg)
     else if isset seg ACK then
       (if SND_UNA (tcb c1) \<le> seg_ack seg \<and> seg_ack seg \<le> SND_NXT (tcb c1) then
          (let c2 = (if rttm_active c1 then rttm_stop (Some True) c1 else c1);
               c3 = set_state Established c2;
               c4 = c3\<lparr>tcb := (tcb c3)\<lparr>SND_UNA := seg_ack seg\<rparr>\<rparr>;
               c5 = (if rttm_active c4 then rttm_stop None c4 else c4);
               c6 = called (Rt_ack_queue (seg_ack seg)) c5
           in case (if has_data seg then process_segment e c6 seg else Some c6) of
                None \<Rightarrow> None
              | Some c7 \<Rightarrow>
                  (let c8 = signal_connect e c7
                   in if isset seg FIN
                      then Some (CLOSE, set_state CloseWait (process_fin c8 seg))
                      else Some (SynReceived_check_fin c8 seg)))
        else
          Some (SynReceived_check_fin
                  (transmit (set_flag RST (set_seq (seg_ack seg) outgoing_packet)) c1) seg))
     else Some (OK, drop_segment seg ''SYN-RCV: !ACK'' c1))"

definition Established_handle :: "env \<Rightarrow> conn \<Rightarrow> segment \<Rightarrow> (result \<times> conn) option" where
  "Established_handle e c seg =
    (let (ok, c1) = check_seq c seg in
     if \<not> ok then Some (OK, c1)
     else if isset seg RST then Some (CLOSED, signal_disconnect RESET c1)
     else if isset seg SYN then Some (CLOSED, unallowed_syn_reset_connection c1 seg)
     else
       (let (ok2, c2) = check_ack e c1 seg in
        if \<not> ok2 then Some (OK, c2)
        else
          (case (if has_data seg then process_segment e c2 seg else Some c2) of
             None \<Rightarrow> None
           | Some c3 \<Rightarrow>
               if isset seg FIN then Some (CLOSE, set_state CloseWait (process_fin c3 seg))
               else Some (OK, c3))))"

definition FinWait2_handle :: "env \<Rightarrow> conn \<Rightarrow> segment \<Rightarrow> (result \<times> conn) option" where
  "FinWait2_handle e c seg =
    (let (ok, c1) = check_seq c seg in
     if \<not> ok then Some (OK, c1)
     else if isset seg RST then Some (CLOSED, signal_disconnect RESET c1)
     else if isset seg SYN then Some (CLOSED, unallowed_syn_reset_connection c1 seg)
     else
       (let (ok2, c2) = check_ack e c1 seg in
        if \<not> ok2 then Some (OK, c2)
        else
          (case (if has_data seg then process_segment e c2 seg else Some c2) of
             None \<Rightarrow> None
           | Some c3 \<Rightarrow>
               if isset seg FIN then
                 Some (OK, called Start_time_wait_timeout
                             (called Rt_stop (set_state TimeWait (process_fin c3 seg))))
               else Some (OK, c3))))"

text \<open>
  When our FIN is acknowledged, \<^verbatim>\<open>FinWait1::handle\<close> sets the state to FinWait2 and hands
  the same segment to \<^verbatim>\<open>tcp.state().handle\<close>, which is then \<^verbatim>\<open>FinWait2::handle\<close>.
\<close>

definition FinWait1_handle :: "env \<Rightarrow> conn \<Rightarrow> segment \<Rightarrow> (result \<times> conn) option" where
  "FinWait1_handle e c seg =
    (let (ok, c1) = check_seq c seg in
     if \<not> ok then Some (OK, c1)
     else if isset seg RST then Some (CLOSED, signal_disconnect RESET c1)
     else if isset seg SYN then Some (CLOSED, unallowed_syn_reset_connection c1 seg)
     else
       (let (ok2, c2) = check_ack e c1 seg in
        if \<not> ok2 then Some (OK, c2)
        else if seg_ack seg = SND_NXT (tcb c2) then
          FinWait2_handle e (set_state FinWait2 c2) seg
        else
          (case (if has_data seg then process_segment e c2 seg else Some c2) of
             None \<Rightarrow> None
           | Some c3 \<Rightarrow>
               if isset seg FIN then
                 (let c4 = process_fin c3 seg
                  in if seg_ack seg = SND_NXT (tcb c4)
                     then Some (OK, called Start_time_wait_timeout
                                      (called Rt_stop (set_state TimeWait c4)))
                     else Some (OK, set_state Closing c4))
               else Some (OK, c3))))"

definition CloseWait_handle :: "env \<Rightarrow> conn \<Rightarrow> segment \<Rightarrow> result \<times> conn" where
  "CloseWait_handle e c seg =
    (let (ok, c1) = check_seq c seg in
     if \<not> ok then (OK, c1)
     else if isset seg RST then (CLOSED, signal_disconnect RESET c1)
     else if isset seg SYN then (CLOSED, unallowed_syn_reset_connection c1 seg)
     else
       (let (ok2, c2) = check_ack e c1 seg in
        if \<not> ok2 then (OK, c2)
        else if isset seg FIN then (OK, process_fin c2 seg)
        else (OK, c2)))"

definition Closing_handle :: "env \<Rightarrow> conn \<Rightarrow> segment \<Rightarrow> result \<times> conn" where
  "Closing_handle e c seg =
    (let (ok, c1) = check_seq c seg in
     if \<not> ok then (OK, c1)
     else if isset seg RST then (CLOSED, c1)
     else if isset seg SYN then (CLOSED, unallowed_syn_reset_connection c1 seg)
     else
       (let (ok2, c2) = check_ack e c1 seg in
        if \<not> ok2 then (CLOSED, c2)
        else
          (let c3 = (if seg_ack seg = SND_NXT (tcb c2)
                     then called Start_time_wait_timeout (set_state TimeWait c2)
                     else c2)
           in if isset seg FIN then (OK, process_fin c3 seg) else (OK, c3))))"

text \<open>
  \<^verbatim>\<open>LastAck::handle\<close> returns \<^verbatim>\<open>CLOSED\<close> right after the sequence check; the RST, SYN, ACK
  and FIN steps written below that \<^verbatim>\<open>return\<close> are never executed.
\<close>

definition LastAck_handle :: "env \<Rightarrow> conn \<Rightarrow> segment \<Rightarrow> result \<times> conn" where
  "LastAck_handle e c seg =
    (let (ok, c1) = check_seq c seg in
     if \<not> ok then (OK, c1)
     else (CLOSED, c1))"

definition TimeWait_handle :: "env \<Rightarrow> conn \<Rightarrow> segment \<Rightarrow> result \<times> conn" where
  "TimeWait_handle e c seg =
    (let (ok, c1) = check_seq c seg in
     if \<not> ok then (OK, c1)
     else if isset seg RST then (CLOSED, c1)
     else if isset seg SYN then (CLOSED, unallowed_syn_reset_connection c1 seg)
     else if isset seg FIN then (OK, called Start_time_wait_timeout (process_fin c1 seg))
     else (OK, c1))"

text \<open>
  The virtual call \<^verbatim>\<open>tcp.state().handle(tcp, in)\<close>. The handlers that never reach
  \<^verbatim>\<open>process_segment\<close> always return.
\<close>

definition handle :: "env \<Rightarrow> conn \<Rightarrow> segment \<Rightarrow> (result \<times> conn) option" where
  "handle e c seg =
    (case state c of
       Closed \<Rightarrow> Some (Closed_handle e c seg)
     | Listen \<Rightarrow> Some (Listen_handle e c seg)
     | SynSent \<Rightarrow> SynSent_handle e c seg
     | SynReceived \<Rightarrow> SynReceived_handle e c seg
     | Established \<Rightarrow> Established_handle e c seg
     | FinWait1 \<Rightarrow> FinWait1_handle e c seg
     | FinWait2 \<Rightarrow> FinWait2_handle e c seg
     | CloseWait \<Rightarrow> Some (CloseWait_handle e c seg)
     | Closing \<Rightarrow> Some (Closing_handle e c seg)
     | LastAck \<Rightarrow> Some (LastAck_handle e c seg)
     | TimeWait \<Rightarrow> Some (TimeWait_handle e c seg))"

section \<open>Sequence-space order and example inputs\<close>

text \<open>
  Modelled from the spec: in sequence space \<open>a \<le> b\<close> is read off the signed 32-bit
  difference, \<^verbatim>\<open>(int32)(a - b) <= 0\<close>. The source itself compares with the unsigned order.
\<close>

definition seq_leq :: "32 word \<Rightarrow> 32 word \<Rightarrow> bool" where
  "seq_leq a b = (sint (a - b) \<le> 0)"

text \<open>
  Collaborators for concrete runs: an owner that accepts, callbacks that do nothing, a
  \<^verbatim>\<open>Connection::receive\<close> that reports every byte as received, and an empty write queue.
\<close>

definition idle_env :: env where
  "idle_env =
    \<lparr>signal_accept = (\<lambda>c. True), on_connect = (\<lambda>c. c),
     receive = (\<lambda>seg c. (unat (data_length seg), c)),
     has_doable_job = (\<lambda>c. False), is_queued = (\<lambda>c. False), write_queue_push = (\<lambda>c. c),
     reno_is_dup_ack = (\<lambda>c seg. False), fresh_iss = 3000, configured_window = 4096\<rparr>"

definition example_tcb :: tcb where
  "example_tcb =
    \<lparr>SND_UNA = 100, SND_NXT = 101, SND_WND = 8192, SND_WL1 = 0, SND_WL2 = 0, SND_cwnd = 0,
     ISS = 100, RCV_NXT = 1000, RCV_WND = 4096, IRS = 999\<rparr>"

definition example_conn :: conn where
  "example_conn =
    \<lparr>tcb = example_tcb, state = Established, prev_state = SynReceived,
     remote_is_empty = False, rttm_active = False, read_capacity = 0, read_size = 0,
     trace = []\<rparr>"

section \<open>Properties\<close>

lemmas hook_defs =
  called_def transmit_def drop_segment_def signal_disconnect_def signal_connect_def
  set_state_def acknowledge_def rttm_stop_def init_def

lemmas packet_defs =
  outgoing_packet_def set_seq_def set_ack_def set_flag_def set_flags_def add_option_def

lemmas example_defs = idle_env_def example_tcb_def example_conn_def

lemma check_seq_accept:
  "check_seq_acceptable (tcb c) seg \<Longrightarrow> check_seq c seg = (True, c)"
  by (simp add: check_seq_def)

lemma check_seq_reject:
  "\<not> check_seq_acceptable (tcb c) seg \<Longrightarrow>
   check_seq c seg =
     (False, c\<lparr>trace := trace c
        @ (if isset seg RST then []
           else [Transmit \<lparr>p_seq = Some (SND_NXT (tcb c)), p_ack = Some (RCV_NXT (tcb c)),
                            p_flags = {ACK}, p_options = []\<rparr>])
        @ [Drop seg ''Unacceptable SEQ'']\<rparr>)"
  by (simp add: check_seq_def hook_defs packet_defs)

text \<open>
  Where \<^verbatim>\<open>Connection::receive\<close> reports another count than the segment's length, the
  assertion in \<^verbatim>\<open>process_segment\<close> fails and nothing is returned.
\<close>

lemma process_segment_short_receive:
  "has_data seg \<Longrightarrow> read_capacity c \<noteq> 0 \<Longrightarrow>
   fst (receive e seg c) \<noteq> unat (data_length seg) \<Longrightarrow>
   process_segment e c seg = None"
  by (simp add: process_segment_def)

subsection \<open>The sequence check\<close>

text \<open>
  C1: \<^verbatim>\<open>check_seq\<close> is to accept exactly by the four cases of RFC 793 over the segment
  length and \<^verbatim>\<open>RCV.WND\<close>; a segment with data is never acceptable while the window is zero.
  The first branch of the source accepts every segment whose sequence number equals
  \<^verbatim>\<open>RCV.NXT\<close> without looking at the length or the window: with \<^verbatim>\<open>RCV.NXT = 1000\<close> and
  \<^verbatim>\<open>RCV.WND = 0\<close>, a segment of ten bytes at 1000 passes the check, nothing is transmitted
  or dropped, and the four-case test rejects the same segment.
\<close>

theorem check_seq_accepts_data_on_zero_window:
  "check_seq (example_conn\<lparr>tcb := example_tcb\<lparr>RCV_WND := 0\<rparr>\<rparr>)
     \<lparr>seg_seq = 1000, seg_ack = 101, seg_win = 512, data_length = 10, seg_flags = {ACK}\<rparr>
   = (True, example_conn\<lparr>tcb := example_tcb\<lparr>RCV_WND := 0\<rparr>\<rparr>)
   \<and> \<not> rfc793_acceptable (example_tcb\<lparr>RCV_WND := 0\<rparr>)
     \<lparr>seg_seq = 1000, seg_ack = 101, seg_win = 512, data_length = 10, seg_flags = {ACK}\<rparr>"
  by (simp add: check_seq_def check_seq_acceptable_def rfc793_acceptable_def example_defs)

text \<open>
  The fourth branch of the source is reached by empty segments too: one that starts right
  behind the window (\<^verbatim>\<open>SEG.SEQ = RCV.NXT + RCV.WND\<close>) is accepted, because the byte before
  it is inside.
\<close>

lemma check_seq_accepts_empty_segment_behind_window:
  "check_seq_acceptable example_tcb
     \<lparr>seg_seq = 5096, seg_ack = 101, seg_win = 512, data_length = 0, seg_flags = {ACK}\<rparr>
   \<and> \<not> rfc793_acceptable example_tcb
     \<lparr>seg_seq = 5096, seg_ack = 101, seg_win = 512, data_length = 0, seg_flags = {ACK}\<rparr>"
  by (simp add: check_seq_acceptable_def rfc793_acceptable_def in_window_def example_defs)

subsection \<open>The window update of the ACK check\<close>

text \<open>
  C2: on an acceptable ACK, \<^verbatim>\<open>check_ack\<close> is to take \<^verbatim>\<open>SND.WND\<close>, \<^verbatim>\<open>SND.WL1\<close> and
  \<^verbatim>\<open>SND.WL2\<close> from the segment exactly when
  \<^verbatim>\<open>SND.WL1 < SEG.SEQ or (SND.WL1 = SEG.SEQ and SND.WL2 =< SEG.ACK)\<close>, and to leave the three
  alone otherwise. With \<^verbatim>\<open>SND.WL1 = 2000\<close> and \<^verbatim>\<open>SND.WL2 = 500\<close>, the older segment
  \<^verbatim>\<open>SEG.SEQ = 1500\<close>, \<^verbatim>\<open>SEG.ACK = 600\<close>, \<^verbatim>\<open>SEG.WND = 4321\<close> does not satisfy that guard, and
  the source still takes all three values from it: \<^verbatim>\<open>SND.WL1\<close> goes back from 2000 to 1500.
\<close>

theorem check_ack_updates_window_from_older_segment:
  "\<not> window_update_guard
       (example_tcb\<lparr>SND_UNA := 500, SND_NXT := 700, SND_WL1 := 2000, SND_WL2 := 500\<rparr>)
       \<lparr>seg_seq = 1500, seg_ack = 600, seg_win = 4321, data_length = 0, seg_flags = {ACK}\<rparr>
   \<and> check_ack idle_env
       (example_conn\<lparr>tcb :=
          example_tcb\<lparr>SND_UNA := 500, SND_NXT := 700, SND_WL1 := 2000, SND_WL2 := 500\<rparr>\<rparr>)
       \<lparr>seg_seq = 1500, seg_ack = 600, seg_win = 4321, data_length = 0, seg_flags = {ACK}\<rparr>
     = (True, example_conn\<lparr>tcb :=
          example_tcb\<lparr>SND_UNA := 600, SND_NXT := 700, SND_WND := 4321, SND_WL1 := 1500,
                        SND_WL2 := 600\<rparr>,
          trace := [Acknowledge 600]\<rparr>)"
  by (simp add: window_update_guard_def check_ack_def window_update_def isset_def hook_defs
      example_defs)

text \<open>
  When the right operand of \<^verbatim>\<open>or\<close> is false as well, the assignment inside it has
  already overwritten \<^verbatim>\<open>SND.WL1\<close> with 0, while \<^verbatim>\<open>SND.WND\<close> and \<^verbatim>\<open>SND.WL2\<close> stay.
\<close>

lemma check_ack_clears_wl1:
  "\<not> window_update_guard
       (example_tcb\<lparr>SND_UNA := 500, SND_NXT := 700, SND_WL1 := 2000, SND_WL2 := 650\<rparr>)
       \<lparr>seg_seq = 1500, seg_ack = 600, seg_win = 4321, data_length = 0, seg_flags = {ACK}\<rparr>
   \<and> check_ack idle_env
       (example_conn\<lparr>tcb :=
          example_tcb\<lparr>SND_UNA := 500, SND_NXT := 700, SND_WL1 := 2000, SND_WL2 := 650\<rparr>\<rparr>)
       \<lparr>seg_seq = 1500, seg_ack = 600, seg_win = 4321, data_length = 0, seg_flags = {ACK}\<rparr>
     = (True, example_conn\<lparr>tcb :=
          example_tcb\<lparr>SND_UNA := 600, SND_NXT := 700, SND_WL1 := 0, SND_WL2 := 650\<rparr>,
          trace := [Acknowledge 600]\<rparr>)"
  by (simp add: window_update_guard_def check_ack_def window_update_def isset_def hook_defs
      example_defs)


subsection \<open>SYN on a synchronized connection\<close>

text \<open>
  In seven of the eight synchronized states a SYN that passes the sequence check and
  carries no RST sends \<^verbatim>\<open><SEQ=SEG.ACK><CTL=RST>\<close>, signals the disconnect cause
  \<^verbatim>\<open>RESET\<close> and returns \<^verbatim>\<open>CLOSED\<close>.
\<close>

lemma unallowed_syn_resets:
  assumes "state c \<in> {SynReceived, Established, FinWait1, FinWait2, CloseWait, Closing, TimeWait}"
    and "check_seq_acceptable (tcb c) seg"
    and "\<not> isset seg RST"
    and "isset seg SYN"
  shows "handle e c seg =
    Some (CLOSED, c\<lparr>trace := trace c
       @ [Transmit \<lparr>p_seq = Some (seg_ack seg), p_ack = None, p_flags = {RST}, p_options = []\<rparr>,
          Signal_disconnect RESET]\<rparr>)"
  using assms
  by (auto simp: handle_def SynReceived_handle_def Established_handle_def FinWait1_handle_def
      FinWait2_handle_def CloseWait_handle_def Closing_handle_def TimeWait_handle_def
      check_seq_accept unallowed_syn_reset_connection_def hook_defs packet_defs)

text \<open>
  C3: in every synchronized state, LastAck among them, such a SYN is to be answered by
  \<^verbatim>\<open>unallowed_syn_reset\<close> (the reset segment and the \<^verbatim>\<open>RESET\<close> signal) before \<^verbatim>\<open>handle\<close>
  returns \<^verbatim>\<open>CLOSED\<close>. \<^verbatim>\<open>LastAck::handle\<close> returns \<^verbatim>\<open>CLOSED\<close> right after the sequence
  check: for a SYN at \<^verbatim>\<open>RCV.NXT\<close> the connection comes back unchanged, with no segment
  transmitted and no disconnect signalled.
\<close>

theorem LastAck_syn_closes_without_reset:
  "handle idle_env (example_conn\<lparr>state := LastAck, prev_state := CloseWait\<rparr>)
     \<lparr>seg_seq = 1000, seg_ack = 101, seg_win = 512, data_length = 0, seg_flags = {SYN}\<rparr>
   = Some (CLOSED, example_conn\<lparr>state := LastAck, prev_state := CloseWait\<rparr>)"
  by (simp add: handle_def LastAck_handle_def check_seq_def check_seq_acceptable_def
      example_defs)

subsection \<open>The order of \<^verbatim>\<open>SND.UNA\<close> and \<^verbatim>\<open>SND.NXT\<close>\<close>

text \<open>
  C4: \<^verbatim>\<open>SND.UNA \<le> SND.NXT\<close> is to hold after every \<^verbatim>\<open>handle\<close> when it held before. In
  SynSent a SYN without the ACK flag still has its acknowledgment field copied into
  \<^verbatim>\<open>SND.UNA\<close>: with \<^verbatim>\<open>ISS = SND.UNA = 100\<close> and \<^verbatim>\<open>SND.NXT = 101\<close>, a SYN whose
  acknowledgment field holds 5000 leaves \<^verbatim>\<open>SND.UNA = 5000\<close> above \<^verbatim>\<open>SND.NXT = 101\<close>, in the
  unsigned order of the source and in the signed-difference order alike, and the
  connection is Established.
\<close>

theorem SynSent_syn_without_ack_breaks_una_le_nxt:
  "SND_UNA (tcb (example_conn\<lparr>state := SynSent, prev_state := Closed\<rparr>))
     \<le> SND_NXT (tcb (example_conn\<lparr>state := SynSent, prev_state := Closed\<rparr>))
   \<and> seq_leq (SND_UNA (tcb (example_conn\<lparr>state := SynSent, prev_state := Closed\<rparr>)))
        (SND_NXT (tcb (example_conn\<lparr>state := SynSent, prev_state := Closed\<rparr>)))
   \<and> handle idle_env (example_conn\<lparr>state := SynSent, prev_state := Closed\<rparr>)
       \<lparr>seg_seq = 7000, seg_ack = 5000, seg_win = 4321, data_length = 0, seg_flags = {SYN}\<rparr>
     = Some (OK, example_conn\<lparr>tcb :=
          example_tcb\<lparr>SND_UNA := 5000, SND_WND := 4321, SND_WL1 := 7000, SND_WL2 := 5000,
                        RCV_NXT := 7001, IRS := 7000\<rparr>,
          state := Established, prev_state := SynSent,
          trace := [Rt_ack_queue 5000, Signal_connect,
                    Transmit \<lparr>p_seq = Some 101, p_ack = Some 7001, p_flags = {ACK},
                               p_options = []\<rparr>]\<rparr>)
   \<and> \<not> (5000 :: 32 word) \<le> 101
   \<and> \<not> seq_leq 5000 101"
  by (simp add: handle_def SynSent_handle_def SynSent_check_rst_def SynSent_check_syn_def
      isset_def has_data_def seq_leq_def hook_defs packet_defs example_defs)

subsection \<open>Active OPEN\<close>

lemma Closed_open_active:
  "\<not> remote_is_empty c \<Longrightarrow>
   Closed_open e c True =
     Inr (c\<lparr>tcb := (tcb c)\<lparr>ISS := fresh_iss e, SND_UNA := fresh_iss e,
                              SND_NXT := fresh_iss e + 1, RCV_WND := configured_window e\<rparr>,
            state := SynSent, prev_state := state c,
            trace := trace c
              @ [Transmit \<lparr>p_seq = Some (fresh_iss e), p_ack = None, p_flags = {SYN},
                            p_options = [MSS]\<rparr>]\<rparr>)"
  by (simp add: Closed_open_def hook_defs packet_defs)

lemma Listen_open_active:
  "\<not> remote_is_empty c \<Longrightarrow>
   Listen_open e c active =
     Inr (c\<lparr>tcb := (tcb c)\<lparr>ISS := fresh_iss e, SND_UNA := fresh_iss e,
                              SND_NXT := fresh_iss e + 1, RCV_WND := configured_window e\<rparr>,
            state := SynSent, prev_state := state c,
            trace := trace c
              @ [Transmit \<lparr>p_seq = Some (fresh_iss e), p_ack = None, p_flags = {SYN},
                            p_options = []\<rparr>]\<rparr>)"
  by (simp add: Listen_open_def hook_defs packet_defs)

text \<open>
  C5: an active OPEN in Listen with a remote is to do what an active OPEN in Closed does,
  the SYN carrying the MSS option included. \<^verbatim>\<open>Closed::open\<close> adds the option to its SYN;
  \<^verbatim>\<open>Listen::open\<close> initialises the block, sets \<^verbatim>\<open>SND.UNA\<close> and \<^verbatim>\<open>SND.NXT\<close> and enters
  SynSent in the same way, but transmits the SYN without any option.
\<close>

theorem Listen_open_sends_syn_without_mss:
  "open_conn idle_env (example_conn\<lparr>state := Closed, prev_state := Closed\<rparr>) True
     = Inr (example_conn\<lparr>tcb := example_tcb\<lparr>ISS := 3000, SND_UNA := 3000, SND_NXT := 3001\<rparr>,
              state := SynSent, prev_state := Closed,
              trace := [Transmit \<lparr>p_seq = Some 3000, p_ack = None, p_flags = {SYN},
                                   p_options = [MSS]\<rparr>]\<rparr>)
   \<and> open_conn idle_env (example_conn\<lparr>state := Listen, prev_state := Closed\<rparr>) True
     = Inr (example_conn\<lparr>tcb := example_tcb\<lparr>ISS := 3000, SND_UNA := 3000, SND_NXT := 3001\<rparr>,
              state := SynSent, prev_state := Listen,
              trace := [Transmit \<lparr>p_seq = Some 3000, p_ack = None, p_flags = {SYN},
                                   p_options = []\<rparr>]\<rparr>)"
  by (simp add: open_conn_def Closed_open_def Listen_open_def hook_defs packet_defs
      example_defs)


subsection \<open>A retransmitted FIN in CloseWait\<close>
















subsection \<open>A segment that fails the sequence check\<close>

text \<open>
  C7: in every state whose \<^verbatim>\<open>handle\<close> begins with \<^verbatim>\<open>check_seq\<close>, a segment that fails
  the check leaves the whole control block and the read buffer as they were; \<^verbatim>\<open>handle\<close>
  returns \<^verbatim>\<open>OK\<close>, having at most transmitted the corrective ACK (none when the segment
  carries RST) and dropped the segment. The returned connection is the old one with a
  longer trace: every other field, the block and the read buffer among them, is the same.
\<close>

theorem rejected_segment_changes_only_trace:
  assumes "state c \<in> {SynReceived, Established, FinWait1, FinWait2, CloseWait, Closing,
                       LastAck, TimeWait}"
    and "\<not> check_seq_acceptable (tcb c) seg"
  shows "handle e c seg =
    Some (OK, c\<lparr>trace := trace c
       @ (if isset seg RST then []
          else [Transmit \<lparr>p_seq = Some (SND_NXT (tcb c)), p_ack = Some (RCV_NXT (tcb c)),
                           p_flags = {ACK}, p_options = []\<rparr>])
       @ [Drop seg ''Unacceptable SEQ'']\<rparr>)"
  using assms
  by (auto simp: handle_def SynReceived_handle_def Established_handle_def FinWait1_handle_def
      FinWait2_handle_def CloseWait_handle_def Closing_handle_def LastAck_handle_def
      TimeWait_handle_def check_seq_reject)

text \<open>
  Established with \<^verbatim>\<open>RCV.NXT = 1201\<close> and \<^verbatim>\<open>RCV.WND = 4096\<close>; the segment has
  \<^verbatim>\<open>SEG.SEQ = 500\<close> and 50 bytes.
\<close>

theorem rejected_segment_changes_only_trace_witness:
  "state (example_conn\<lparr>tcb := example_tcb\<lparr>RCV_NXT := 1201\<rparr>, read_capacity := 64,
                        read_size := 7\<rparr>)
     \<in> {SynReceived, Established, FinWait1, FinWait2, CloseWait, Closing, LastAck, TimeWait}
   \<and> \<not> check_seq_acceptable (example_tcb\<lparr>RCV_NXT := 1201\<rparr>)
       \<lparr>seg_seq = 500, seg_ack = 101, seg_win = 512, data_length = 50, seg_flags = {ACK}\<rparr>
   \<and> handle idle_env
       (example_conn\<lparr>tcb := example_tcb\<lparr>RCV_NXT := 1201\<rparr>, read_capacity := 64,
                      read_size := 7\<rparr>)
       \<lparr>seg_seq = 500, seg_ack = 101, seg_win = 512, data_length = 50, seg_flags = {ACK}\<rparr>
     = Some (OK, example_conn\<lparr>tcb := example_tcb\<lparr>RCV_NXT := 1201\<rparr>, read_capacity := 64,
              read_size := 7,
              trace := [Transmit \<lparr>p_seq = Some 101, p_ack = Some 1201, p_flags = {ACK},
                                   p_options = []\<rparr>,
                        Drop \<lparr>seg_seq = 500, seg_ack = 101, seg_win = 512, data_length = 50,
                               seg_flags = {ACK}\<rparr> ''Unacceptable SEQ'']\<rparr>)"
  using rejected_segment_changes_only_trace [of
      "example_conn\<lparr>tcb := example_tcb\<lparr>RCV_NXT := 1201\<rparr>, read_capacity := 64,
                     read_size := 7\<rparr>"
      "\<lparr>seg_seq = 500, seg_ack = 101, seg_win = 512, data_length = 50, seg_flags = {ACK}\<rparr>"
      idle_env]
  by (simp add: check_seq_acceptable_def isset_def example_defs)

subsection \<open>An old duplicate ACK\<close>

lemma old_duplicate_ack_unchanged:
  assumes "isset seg ACK"
    and "seg_ack seg \<le> SND_NXT (tcb c)"
    and "seg_ack seg < SND_UNA (tcb c)"
  shows "check_ack e c seg = (True, c)"
proof -
  have "\<not> SND_UNA (tcb c) \<le> seg_ack seg"
    using assms(3) by (simp add: not_le)
  then show ?thesis
    using assms(1,2) by (simp add: check_ack_def)
qed

text \<open>
  C8, as the claim words it, has every state that calls \<^verbatim>\<open>check_ack\<close> go on to process
  the data of a segment with an old duplicate ACK. CloseWait and Closing call
  \<^verbatim>\<open>check_ack\<close> too and ignore segment text altogether (the peer's FIN has been
  received): in CloseWait, with \<^verbatim>\<open>SND.UNA = 600\<close> and \<^verbatim>\<open>SND.NXT = 700\<close>, a segment that
  acknowledges 550 and brings 20 bytes at \<^verbatim>\<open>RCV.NXT\<close> passes both checks and \<^verbatim>\<open>handle\<close>
  returns \<^verbatim>\<open>OK\<close> with the connection as it was: \<^verbatim>\<open>RCV.NXT\<close> is not advanced and nothing is
  transmitted.
\<close>

theorem CloseWait_old_duplicate_ack_data_ignored_counterexample:
  "has_data \<lparr>seg_seq = 1000, seg_ack = 550, seg_win = 512, data_length = 20,
             seg_flags = {ACK}\<rparr>
   \<and> check_ack idle_env
       (example_conn\<lparr>tcb := example_tcb\<lparr>SND_UNA := 600, SND_NXT := 700\<rparr>,
                      state := CloseWait, prev_state := Established\<rparr>)
       \<lparr>seg_seq = 1000, seg_ack = 550, seg_win = 512, data_length = 20, seg_flags = {ACK}\<rparr>
     = (True, example_conn\<lparr>tcb := example_tcb\<lparr>SND_UNA := 600, SND_NXT := 700\<rparr>,
                state := CloseWait, prev_state := Established\<rparr>)
   \<and> handle idle_env
       (example_conn\<lparr>tcb := example_tcb\<lparr>SND_UNA := 600, SND_NXT := 700\<rparr>,
                      state := CloseWait, prev_state := Established\<rparr>)
       \<lparr>seg_seq = 1000, seg_ack = 550, seg_win = 512, data_length = 20, seg_flags = {ACK}\<rparr>
     = Some (OK, example_conn\<lparr>tcb := example_tcb\<lparr>SND_UNA := 600, SND_NXT := 700\<rparr>,
                   state := CloseWait, prev_state := Established\<rparr>)"
  by (simp add: handle_def CloseWait_handle_def check_seq_def check_seq_acceptable_def
      check_ack_def isset_def has_data_def example_defs)

text \<open>
  C8, amended: for an old duplicate ACK (the ACK flag set, \<^verbatim>\<open>SEG.ACK \<le> SND.NXT\<close> and
  \<^verbatim>\<open>SEG.ACK\<close> strictly below \<^verbatim>\<open>SND.UNA\<close>) \<^verbatim>\<open>check_ack\<close> returns true and changes nothing,
  so every calling state goes on with its remaining steps instead of dropping the
  segment. For a segment that passed the sequence check and carries neither RST nor SYN:
  Established, FinWait2 and FinWait1 (which continues as FinWait2 when
  \<^verbatim>\<open>SEG.ACK = SND.NXT\<close>) hand the data, if any, to \<^verbatim>\<open>process_segment\<close> and then process the
  FIN; CloseWait and Closing ignore the data and process the FIN only, Closing after
  entering TimeWait when \<^verbatim>\<open>SEG.ACK = SND.NXT\<close>.
\<close>

theorem check_ack_passes_old_duplicate:
  assumes "isset seg ACK"
    and "seg_ack seg \<le> SND_NXT (tcb c)"
    and "seg_ack seg < SND_UNA (tcb c)"
  shows "check_ack e c seg = (True, c)
    \<and> (check_seq_acceptable (tcb c) seg \<and> \<not> isset seg RST \<and> \<not> isset seg SYN \<longrightarrow>
        (state c = Established \<longrightarrow>
           handle e c seg =
             (case (if has_data seg then process_segment e c seg else Some c) of
                None \<Rightarrow> None
              | Some c3 \<Rightarrow>
                  if isset seg FIN then Some (CLOSE, set_state CloseWait (process_fin c3 seg))
                  else Some (OK, c3)))
      \<and> (state c = FinWait2 \<longrightarrow>
           handle e c seg =
             (case (if has_data seg then process_segment e c seg else Some c) of
                None \<Rightarrow> None
              | Some c3 \<Rightarrow>
                  if isset seg FIN then
                    Some (OK, called Start_time_wait_timeout
                                (called Rt_stop (set_state TimeWait (process_fin c3 seg))))
                  else Some (OK, c3)))
      \<and> (state c = FinWait1 \<and> seg_ack seg \<noteq> SND_NXT (tcb c) \<longrightarrow>
           handle e c seg =
             (case (if has_data seg then process_segment e c seg else Some c) of
                None \<Rightarrow> None
              | Some c3 \<Rightarrow>
                  if isset seg FIN then
                    (if seg_ack seg = SND_NXT (tcb (process_fin c3 seg))
                     then Some (OK, called Start_time_wait_timeout
                                      (called Rt_stop (set_state TimeWait (process_fin c3 seg))))
                     else Some (OK, set_state Closing (process_fin c3 seg)))
                  else Some (OK, c3)))
      \<and> (state c = FinWait1 \<and> seg_ack seg = SND_NXT (tcb c) \<longrightarrow>
           handle e c seg =
             (case (if has_data seg then process_segment e (set_state FinWait2 c) seg
                    else Some (set_state FinWait2 c)) of
                None \<Rightarrow> None
              | Some c3 \<Rightarrow>
                  if isset seg FIN then
                    Some (OK, called Start_time_wait_timeout
                                (called Rt_stop (set_state TimeWait (process_fin c3 seg))))
                  else Some (OK, c3)))
      \<and> (state c = CloseWait \<longrightarrow>
           handle e c seg = Some (if isset seg FIN then (OK, process_fin c seg) else (OK, c)))
      \<and> (state c = Closing \<longrightarrow>
           handle e c seg =
             Some (if isset seg FIN
                   then (OK, process_fin
                               (if seg_ack seg = SND_NXT (tcb c)
                                then called Start_time_wait_timeout (set_state TimeWait c)
                                else c) seg)
                   else (OK, if seg_ack seg = SND_NXT (tcb c)
                             then called Start_time_wait_timeout (set_state TimeWait c)
                             else c))))"
proof -
  have ack: "check_ack e c seg = (True, c)"
    using assms by (rule old_duplicate_ack_unchanged)
  have ack2: "check_ack e (set_state FinWait2 c) seg = (True, set_state FinWait2 c)"
    using assms by (intro old_duplicate_ack_unchanged) (simp_all add: set_state_def)
  have seq2: "check_seq_acceptable (tcb c) seg \<Longrightarrow>
      check_seq (set_state FinWait2 c) seg = (True, set_state FinWait2 c)"
    by (rule check_seq_accept) (simp add: set_state_def)
  show ?thesis
    using ack ack2 seq2
    by (auto simp: handle_def Established_handle_def FinWait2_handle_def FinWait1_handle_def
        CloseWait_handle_def Closing_handle_def check_seq_accept Let_def
        split: option.splits)
qed

text \<open>
  Established with \<^verbatim>\<open>SND.UNA = 600\<close> and \<^verbatim>\<open>SND.NXT = 700\<close>; the segment acknowledges 550
  and brings 20 bytes and a FIN at \<^verbatim>\<open>RCV.NXT = 1000\<close>. The data is acknowledged up to
  1020, then the FIN.
\<close>

theorem check_ack_passes_old_duplicate_witness:
  "check_ack idle_env (example_conn\<lparr>tcb := example_tcb\<lparr>SND_UNA := 600, SND_NXT := 700\<rparr>\<rparr>)
     \<lparr>seg_seq = 1000, seg_ack = 550, seg_win = 512, data_length = 20,
      seg_flags = {ACK, FIN}\<rparr>
   = (True, example_conn\<lparr>tcb := example_tcb\<lparr>SND_UNA := 600, SND_NXT := 700\<rparr>\<rparr>)
   \<and> handle idle_env (example_conn\<lparr>tcb := example_tcb\<lparr>SND_UNA := 600, SND_NXT := 700\<rparr>\<rparr>)
       \<lparr>seg_seq = 1000, seg_ack = 550, seg_win = 512, data_length = 20,
        seg_flags = {ACK, FIN}\<rparr>
     = Some (CLOSE, example_conn\<lparr>tcb :=
          example_tcb\<lparr>SND_UNA := 600, SND_NXT := 700, RCV_NXT := 1021\<rparr>,
          state := CloseWait, prev_state := Established,
          trace := [Transmit \<lparr>p_seq = Some 700, p_ack = Some 1020, p_flags = {ACK},
                               p_options = []\<rparr>,
                    Signal_disconnect CLOSING,
                    Transmit \<lparr>p_seq = None, p_ack = Some 1021, p_flags = {ACK},
                               p_options = []\<rparr>]\<rparr>)"
  using check_ack_passes_old_duplicate [of
      "\<lparr>seg_seq = 1000, seg_ack = 550, seg_win = 512, data_length = 20,
        seg_flags = {ACK, FIN}\<rparr>"
      "example_conn\<lparr>tcb := example_tcb\<lparr>SND_UNA := 600, SND_NXT := 700\<rparr>\<rparr>"
      idle_env]
  by (simp add: check_seq_acceptable_def process_segment_def process_fin_def isset_def
      has_data_def hook_defs packet_defs example_defs)

subsection \<open>An unacceptable ACK in SynReceived\<close>

text \<open>
  C9: in SynReceived, a segment that passes the sequence check, carries neither RST nor
  SYN and carries an ACK outside \<^verbatim>\<open>[SND.UNA, SND.NXT]\<close> has \<^verbatim>\<open><SEQ=SEG.ACK><CTL=RST>\<close>
  transmitted, whether or not it carries FIN. Without FIN that is all and \<^verbatim>\<open>handle\<close>
  returns \<^verbatim>\<open>OK\<close>. With FIN, \<^verbatim>\<open>process_fin\<close> still runs after the reset (the cause
  \<^verbatim>\<open>CLOSING\<close> is signalled, \<^verbatim>\<open>RCV.NXT\<close> advances by one, an ACK for it is emitted, a pending
  read is notified), the connection moves to CloseWait and \<^verbatim>\<open>handle\<close> returns \<^verbatim>\<open>OK\<close>.
\<close>

theorem SynReceived_bad_ack_resets_then_processes_fin:
  assumes "state c = SynReceived"
    and "check_seq_acceptable (tcb c) seg"
    and "\<not> isset seg RST"
    and "\<not> isset seg SYN"
    and "isset seg ACK"
    and "\<not> (SND_UNA (tcb c) \<le> seg_ack seg \<and> seg_ack seg \<le> SND_NXT (tcb c))"
  shows "handle e c seg =
    Some (OK,
      if isset seg FIN then
        c\<lparr>tcb := (tcb c)\<lparr>RCV_NXT := RCV_NXT (tcb c) + 1\<rparr>,
          state := CloseWait, prev_state := SynReceived,
          trace := trace c
            @ [Transmit \<lparr>p_seq = Some (seg_ack seg), p_ack = None, p_flags = {RST},
                          p_options = []\<rparr>,
               Signal_disconnect CLOSING,
               Transmit \<lparr>p_seq = None, p_ack = Some (RCV_NXT (tcb c) + 1), p_flags = {ACK},
                          p_options = []\<rparr>]
            @ (if read_size c \<noteq> 0 then [Receive_disconnect] else [])\<rparr>
      else
        c\<lparr>trace := trace c
            @ [Transmit \<lparr>p_seq = Some (seg_ack seg), p_ack = None, p_flags = {RST},
                          p_options = []\<rparr>]\<rparr>)"
  using assms
  by (auto simp: handle_def SynReceived_handle_def SynReceived_check_fin_def check_seq_accept
      process_fin_def hook_defs packet_defs)

text \<open>
  SynReceived with \<^verbatim>\<open>SND.UNA = 100\<close> and \<^verbatim>\<open>SND.NXT = 101\<close>; the segment acknowledges 300
  at \<^verbatim>\<open>RCV.NXT = 1000\<close>, once with FIN and once without.
\<close>

theorem SynReceived_bad_ack_resets_then_processes_fin_witness:
  "handle idle_env (example_conn\<lparr>state := SynReceived, prev_state := Listen\<rparr>)
     \<lparr>seg_seq = 1000, seg_ack = 300, seg_win = 512, data_length = 0, seg_flags = {ACK, FIN}\<rparr>
   = Some (OK, example_conn\<lparr>tcb := example_tcb\<lparr>RCV_NXT := 1001\<rparr>,
              state := CloseWait, prev_state := SynReceived,
              trace := [Transmit \<lparr>p_seq = Some 300, p_ack = None, p_flags = {RST},
                                   p_options = []\<rparr>,
                        Signal_disconnect CLOSING,
                        Transmit \<lparr>p_seq = None, p_ack = Some 1001, p_flags = {ACK},
                                   p_options = []\<rparr>]\<rparr>)
   \<and> handle idle_env (example_conn\<lparr>state := SynReceived, prev_state := Listen\<rparr>)
       \<lparr>seg_seq = 1000, seg_ack = 300, seg_win = 512, data_length = 0, seg_flags = {ACK}\<rparr>
     = Some (OK, example_conn\<lparr>state := SynReceived, prev_state := Listen,
              trace := [Transmit \<lparr>p_seq = Some 300, p_ack = None, p_flags = {RST},
                                   p_options = []\<rparr>]\<rparr>)"
  using SynReceived_bad_ack_resets_then_processes_fin [of
      "example_conn\<lparr>state := SynReceived, prev_state := Listen\<rparr>"
      "\<lparr>seg_seq = 1000, seg_ack = 300, seg_win = 512, data_length = 0,
        seg_flags = {ACK, FIN}\<rparr>"
      idle_env]
    SynReceived_bad_ack_resets_then_processes_fin [of
      "example_conn\<lparr>state := SynReceived, prev_state := Listen\<rparr>"
      "\<lparr>seg_seq = 1000, seg_ack = 300, seg_win = 512, data_length = 0, seg_flags = {ACK}\<rparr>"
      idle_env]
  by (simp add: check_seq_acceptable_def isset_def example_defs)

subsection \<open>A refused SYN in Listen\<close>

text \<open>
  C10: when a SYN (without RST and ACK) arrives in Listen and the owner's
  \<^verbatim>\<open>signal_accept()\<close> returns false, \<^verbatim>\<open>handle\<close> returns \<^verbatim>\<open>CLOSED\<close> without transmitting a
  segment and without touching the control block: the connection is the old one, with
  the call of \<^verbatim>\<open>signal_accept\<close> as the only new entry of the trace.
\<close>

theorem Listen_refused_syn:
  assumes "state c = Listen"
    and "isset seg SYN"
    and "\<not> isset seg RST"
    and "\<not> isset seg ACK"
    and "\<not> signal_accept e c"
  shows "handle e c seg = Some (CLOSED, c\<lparr>trace := trace c @ [Signal_accept]\<rparr>)"
  using assms by (simp add: handle_def Listen_handle_def called_def)

theorem Listen_refused_syn_witness:
  "handle (idle_env\<lparr>signal_accept := (\<lambda>c. False)\<rparr>)
     (example_conn\<lparr>state := Listen, prev_state := Closed\<rparr>)
     \<lparr>seg_seq = 1000, seg_ack = 0, seg_win = 8192, data_length = 0, seg_flags = {SYN}\<rparr>
   = Some (CLOSED,
       example_conn\<lparr>state := Listen, prev_state := Closed, trace := [Signal_accept]\<rparr>)"
  using Listen_refused_syn [of
      "example_conn\<lparr>state := Listen, prev_state := Closed\<rparr>"
      "\<lparr>seg_seq = 1000, seg_ack = 0, seg_win = 8192, data_length = 0, seg_flags = {SYN}\<rparr>"
      "idle_env\<lparr>signal_accept := (\<lambda>c. False)\<rparr>"]
  by (simp add: isset_def example_defs)


end
